theory Spec2Isabelle
  imports Main "HOL-Library.Sublist"
begin

section \<open>Strings and the regular expressions of \<^verbatim>\<open>lib/parse.js\<close>\<close>

text \<open>
  A JavaScript string is modelled as a \<^typ>\<open>string\<close>: each \<^typ>\<open>char\<close> is one code unit
  in the range 0..255. Of the characters in the class \<^verbatim>\<open>\s\<close> of a JavaScript regular
  expression, the ones in that range are TAB, LF, VT, FF, CR, SPACE and the no-break
  space U+00A0.
\<close>

definition NL :: char where
  "NL = CHR 0x0A"

definition CR :: char where
  "CR = CHR 0x0D"

definition is_space :: "char \<Rightarrow> bool" where
  "is_space c \<longleftrightarrow>
     c = CHR 0x09 \<or> c = CHR 0x0A \<or> c = CHR 0x0B \<or> c = CHR 0x0C \<or> c = CHR 0x0D
     \<or> c = CHR 0x20 \<or> c = CHR 0xA0"

text \<open>\<^verbatim>\<open>s.replace(/\s*$/, '')\<close>: the trailing run of white space is removed.\<close>

definition rstrip :: "string \<Rightarrow> string" where
  "rstrip s = rev (dropWhile is_space (rev s))"

text \<open>\<^verbatim>\<open>input.replace(/\r\n/g, '\n')\<close> and \<^verbatim>\<open>.replace(/\r/g, '\n')\<close>.\<close>

fun replace_crlf :: "string \<Rightarrow> string" where
  "replace_crlf [] = []"
| "replace_crlf [c] = [c]"
| "replace_crlf (c # d # s) =
     (if c = CR \<and> d = NL then NL # replace_crlf s else c # replace_crlf (d # s))"

definition replace_cr :: "string \<Rightarrow> string" where
  "replace_cr s = map (\<lambda>c. if c = CR then NL else c) s"

text \<open>
  \<^verbatim>\<open>input.split('\n')\<close>: a text with n newlines has n + 1 lines. The split is never the
  empty list (lemma \<open>split_nl_not_Nil\<close>), so the last case below does not arise.
\<close>

fun split_nl :: "string \<Rightarrow> string list" where
  "split_nl [] = [[]]"
| "split_nl (c # s) =
     (if c = NL then [] # split_nl s
      else (case split_nl s of l # ls \<Rightarrow> (c # l) # ls | [] \<Rightarrow> [[c]]))"

text \<open>
  \<^verbatim>\<open>/^\s*\/\*\*\s*$/\<close> (both \<^verbatim>\<open>docblockStart\<close> and \<^verbatim>\<open>multiStart\<close>) and
  \<^verbatim>\<open>/^\s*\*\/\s*$/\<close> (\<^verbatim>\<open>multiFinish\<close>): white space, the delimiter, white space.
  The delimiter starts with a character that is not white space, so the first
  \<^verbatim>\<open>\s*\<close> takes the whole leading run.
\<close>

definition delimited :: "string \<Rightarrow> string \<Rightarrow> bool" where
  "delimited d l \<longleftrightarrow>
     (let r = dropWhile is_space l
      in take (length d) r = d \<and> list_all is_space (drop (length d) r))"

definition docblockStart :: "string \<Rightarrow> bool" where
  "docblockStart l = delimited ''/**'' l"

definition multiStart :: "string \<Rightarrow> bool" where
  "multiStart l = delimited ''/**'' l"

definition multiFinish :: "string \<Rightarrow> bool" where
  "multiFinish l = delimited ''*/'' l"

text \<open>\<^verbatim>\<open>line.replace(/^\s*\*\s?/, '')\<close>: the comment marker of a docblock line.\<close>

definition strip_marker :: "string \<Rightarrow> string" where
  "strip_marker l =
     (case dropWhile is_space l of
        c # r \<Rightarrow>
          if c = CHR ''*'' then
            (case r of d # r' \<Rightarrow> if is_space d then r' else r | [] \<Rightarrow> [])
          else l
      | [] \<Rightarrow> l)"

text \<open>
  \<^verbatim>\<open>line.replace(new RegExp('^' + indentAmount), '', 1)\<close>: \<^verbatim>\<open>indentAmount\<close> is a run of
  white space, which a regular expression matches literally; the third argument is
  ignored by \<^verbatim>\<open>replace\<close>.
\<close>

definition strip_indent :: "string \<Rightarrow> string \<Rightarrow> string" where
  "strip_indent ind l = (if take (length ind) l = ind then drop (length ind) l else l)"

text \<open>\<^verbatim>\<open>text.replace(/^\n+/, '').replace(/\n+$/, '')\<close>.\<close>

definition trim_newlines :: "string \<Rightarrow> string" where
  "trim_newlines s =
     rev (dropWhile (\<lambda>c. c = NL) (rev (dropWhile (\<lambda>c. c = NL) s)))"

section \<open>The comment block extractor\<close>

record block =
  line :: nat
  text' :: string
  raw :: string

definition empty_block :: block where
  "empty_block = \<lparr>line = 0, text' = [], raw = []\<rparr>"

text \<open>The variables of the loop of \<^verbatim>\<open>findCommentBlocks\<close>; \<^verbatim>\<open>indentAmount === false\<close> is \<open>None\<close>.\<close>

record scanner =
  blocks :: "block list"
  cur :: block
  indentAmount :: "string option"
  insideSingleBlock :: bool
  insideMultiBlock :: bool
  insideDocblock :: bool

definition init_scanner :: scanner where
  "init_scanner =
     \<lparr>blocks = [], cur = empty_block, indentAmount = None,
      insideSingleBlock = False, insideMultiBlock = False, insideDocblock = False\<rparr>"

text \<open>Lines 217 to 224: the current block is saved and every variable is reset.\<close>

definition save_block :: "scanner \<Rightarrow> scanner" where
  "save_block s =
     \<lparr>blocks = blocks s @ [(cur s)\<lparr>text' := trim_newlines (text' (cur s))\<rparr>],
      cur = empty_block, indentAmount = None,
      insideSingleBlock = False, insideMultiBlock = False, insideDocblock = False\<rparr>"

definition add_raw :: "string \<Rightarrow> scanner \<Rightarrow> scanner" where
  "add_raw l s = s\<lparr>cur := (cur s)\<lparr>raw := raw (cur s) @ l @ [NL]\<rparr>\<rparr>"

definition add_text :: "string \<Rightarrow> scanner \<Rightarrow> scanner" where
  "add_text l s = s\<lparr>cur := (cur s)\<lparr>text' := text' (cur s) @ l @ [NL]\<rparr>\<rparr>"

definition set_line :: "nat \<Rightarrow> scanner \<Rightarrow> scanner" where
  "set_line n s = s\<lparr>cur := (cur s)\<lparr>line := n\<rparr>\<rparr>"

text \<open>Lines 232 to 264: the rest of the loop body, on the line \<open>l\<close> with index \<open>i\<close>.\<close>

definition scan_body :: "nat \<Rightarrow> string \<Rightarrow> scanner \<Rightarrow> scanner" where
  "scan_body i l s =
     (if docblockStart l then
        set_line (i + 1) (add_raw l (s\<lparr>insideDocblock := True\<rparr>))
      else if insideDocblock s then
        add_text (strip_marker l) (add_raw l s)
      else if multiStart l then
        set_line (i + 1) (add_raw l (s\<lparr>insideMultiBlock := True\<rparr>))
      else if insideMultiBlock s then
        (case indentAmount s of
           None \<Rightarrow>
             if l = [] then add_raw l s
             else
               (let ind = takeWhile is_space l
                in add_text (strip_indent ind l) ((add_raw l s)\<lparr>indentAmount := Some ind\<rparr>))
         | Some ind \<Rightarrow> add_text (strip_indent ind l) (add_raw l s))
      else s)"

text \<open>One iteration of the loop, lines 209 to 264.\<close>

definition scan_line :: "nat \<Rightarrow> string \<Rightarrow> scanner \<Rightarrow> scanner" where
  "scan_line i l0 s =
     (let l = rstrip l0
      in if insideSingleBlock s \<or> ((insideMultiBlock s \<or> insideDocblock s) \<and> multiFinish l) then
           (let doneWithCurrentLine = \<not> insideSingleBlock s;
                s' = save_block s
            in if doneWithCurrentLine then s' else scan_body i l s')
         else scan_body i l s)"

text \<open>The loop \<^verbatim>\<open>for (let i = 0; i < lines.length; i += 1)\<close>, from index \<open>i\<close> on.\<close>

fun scan_lines :: "nat \<Rightarrow> string list \<Rightarrow> scanner \<Rightarrow> scanner" where
  "scan_lines i [] s = s"
| "scan_lines i (l # ls) s = scan_lines (i + 1) ls (scan_line i l s)"

definition normalise :: "string \<Rightarrow> string" where
  "normalise input = replace_cr (replace_crlf input)"

definition findCommentBlocks :: "string \<Rightarrow> block list" where
  "findCommentBlocks input =
     blocks (scan_lines 0 (split_nl (normalise input @ [NL])) init_scanner)"

text \<open>The scanner after the lines of the input itself, before the line that
  \<^verbatim>\<open>input += '\n'\<close> adds.\<close>

definition scan_input :: "string \<Rightarrow> scanner" where
  "scan_input input = scan_lines 0 (split_nl (normalise input)) init_scanner"


text \<open>\<^verbatim>\<open>s.replace(/\s|\*/g, '')\<close>, as the test of \<^verbatim>\<open>.raw\<close> compares texts.\<close>

definition squash :: "string \<Rightarrow> string" where
  "squash s = filter (\<lambda>c. \<not> is_space c \<and> c \<noteq> CHR ''*'') s"

section \<open>The modifier and parameter lines\<close>

text \<open>
  \<^verbatim>\<open>/\s+\-\s+/\<close> and \<^verbatim>\<open>/\s+=\s+/\<close> matched at the start of \<open>s\<close>: the rest of \<open>s\<close> after the
  match. The character \<open>c\<close> is not white space, so the first \<^verbatim>\<open>\s+\<close> takes the whole
  leading run, and the second one takes the whole run after \<open>c\<close>.
\<close>

definition match_sep :: "char \<Rightarrow> string \<Rightarrow> string option" where
  "match_sep c s =
     (case dropWhile is_space s of
        d # e # r \<Rightarrow>
          if takeWhile is_space s \<noteq> [] \<and> d = c \<and> is_space e
          then Some (dropWhile is_space r) else None
      | _ \<Rightarrow> None)"

text \<open>\<^verbatim>\<open>entry.split(/\s+\-\s+/, 1)[0]\<close>: the text before the leftmost match.\<close>

fun before_sep :: "char \<Rightarrow> string \<Rightarrow> string" where
  "before_sep c [] = []"
| "before_sep c (x # xs) =
     (if match_sep c (x # xs) \<noteq> None then [] else x # before_sep c xs)"

text \<open>\<^verbatim>\<open>/\s+=\s+/.test(parameter)\<close>.\<close>

fun has_sep :: "char \<Rightarrow> string \<Rightarrow> bool" where
  "has_sep c [] = False"
| "has_sep c (x # xs) = (match_sep c (x # xs) \<noteq> None \<or> has_sep c xs)"

text \<open>
  \<^verbatim>\<open>parameter.split(/\s+=\s+/)\<close>: every piece between the matches. The split is never
  the empty list (lemma \<open>split_sep_not_Nil\<close>), so the last case below does not arise.
\<close>

function split_sep :: "char \<Rightarrow> string \<Rightarrow> string list" where
  "split_sep c [] = [[]]"
| "split_sep c (x # xs) =
     (case match_sep c (x # xs) of
        Some r \<Rightarrow> [] # split_sep c r
      | None \<Rightarrow> (case split_sep c xs of p # ps \<Rightarrow> (x # p) # ps | [] \<Rightarrow> [[x]]))"
  by pat_completeness auto
termination
proof (relation "measure (\<lambda>(c, s). length s)")
  fix c x xs r
  assume "match_sep c (x # xs) = Some r"
  then obtain d e r0 where d: "dropWhile is_space (x # xs) = d # e # r0"
    and r: "r = dropWhile is_space r0"
    by (auto simp: match_sep_def split: list.splits if_splits)
  have "length r \<le> length r0"
    unfolding r by (rule length_dropWhile_le)
  also have "\<dots> < length (dropWhile is_space (x # xs))"
    unfolding d by simp
  also have "\<dots> \<le> length (x # xs)"
    by (rule length_dropWhile_le)
  finally show "((c, r), (c, x # xs)) \<in> measure (\<lambda>(c, s). length s)"
    by simp
qed auto

text \<open>\<^verbatim>\<open>s.replace(/^\s+\-\s+/, '')\<close>.\<close>

definition strip_sep :: "char \<Rightarrow> string \<Rightarrow> string" where
  "strip_sep c s = (case match_sep c s of Some r \<Rightarrow> r | None \<Rightarrow> s)"

text \<open>
  \<^verbatim>\<open>s.replace(pat, rep, 1)\<close> with a string pattern: the first occurrence of \<open>pat\<close> is
  replaced (the replacement used by the source is the empty string, which has no
  \<^verbatim>\<open>$\<close> pattern); the third argument is ignored.
\<close>

fun replace_first :: "string \<Rightarrow> string \<Rightarrow> string \<Rightarrow> string" where
  "replace_first pat rep [] = (if pat = [] then rep else [])"
| "replace_first pat rep (x # xs) =
     (if take (length pat) (x # xs) = pat then rep @ drop (length pat) (x # xs)
      else x # replace_first pat rep xs)"

text \<open>\<^verbatim>\<open>description.match(/\n/g)\<close> and \<^verbatim>\<open>description.replace(/\n/g, ' ')\<close>.\<close>

definition has_newline :: "string \<Rightarrow> bool" where
  "has_newline s \<longleftrightarrow> NL \<in> set s"

definition newlines_to_spaces :: "string \<Rightarrow> string" where
  "newlines_to_spaces s = map (\<lambda>c. if c = NL then CHR '' '' else c) s"

text \<open>
  \<^verbatim>\<open>description.replace(/([\s|\t]{2,})/g, ' ')\<close>: the class holds the white space
  characters and the character \<^verbatim>\<open>|\<close>; every maximal run of two or more of them
  becomes one space.
\<close>

definition in_fold_class :: "char \<Rightarrow> bool" where
  "in_fold_class c \<longleftrightarrow> is_space c \<or> c = CHR ''|''"

function collapse_runs :: "string \<Rightarrow> string" where
  "collapse_runs [] = []"
| "collapse_runs [x] = [x]"
| "collapse_runs (x # y # s) =
     (if in_fold_class x \<and> in_fold_class y
      then CHR '' '' # collapse_runs (dropWhile in_fold_class s)
      else x # collapse_runs (y # s))"
  by pat_completeness auto
termination
  by (relation "measure length") (auto intro: le_imp_less_Suc le_SucI length_dropWhile_le)

record modifier =
  m_name :: string
  m_description :: string

record parameter =
  p_name :: string
  p_defaultValue :: string
  p_description :: string

text \<open>
  The body of \<^verbatim>\<open>createModifiers\<close> for one entry. \<open>inline\<close> is the Markdown renderer
  without the wrapping paragraph, a collaborator outside \<^verbatim>\<open>lib/parse.js\<close>.
\<close>

definition createModifier :: "(string \<Rightarrow> string) \<Rightarrow> bool \<Rightarrow> string \<Rightarrow> modifier" where
  "createModifier inline markdown entry =
     (let modifier = before_sep CHR ''-'' entry;
          description = strip_sep CHR ''-'' (replace_first modifier [] entry);
          description =
            (if has_newline description
             then collapse_runs (newlines_to_spaces description) else description);
          description = (if markdown then inline description else description)
      in \<lparr>m_name = modifier, m_description = description\<rparr>)"

definition createModifiers ::
  "(string \<Rightarrow> string) \<Rightarrow> bool \<Rightarrow> string list \<Rightarrow> modifier list" where
  "createModifiers inline markdown rawModifiers = map (createModifier inline markdown) rawModifiers"

text \<open>
  The body of \<^verbatim>\<open>createParameters\<close> for one entry. When the test of line 320 succeeds
  the split has at least two pieces (lemma \<open>split_sep_two\<close>), so the last case of
  \<open>tokens\<close> does not arise.
\<close>

definition createParameter :: "(string \<Rightarrow> string) \<Rightarrow> bool \<Rightarrow> string \<Rightarrow> parameter" where
  "createParameter inline markdown entry =
     (let parameter = before_sep CHR ''-'' entry;
          defaultValue = [];
          description = strip_sep CHR ''-'' (replace_first parameter [] entry);
          (parameter, defaultValue) =
            (if has_sep CHR ''='' parameter then
               (case split_sep CHR ''='' parameter of
                  t0 # t1 # _ \<Rightarrow> (t0, t1)
                | _ \<Rightarrow> (parameter, defaultValue))
             else (parameter, defaultValue));
          description = (if markdown then inline description else description)
      in \<lparr>p_name = parameter, p_defaultValue = defaultValue, p_description = description\<rparr>)"

definition createParameters ::
  "(string \<Rightarrow> string) \<Rightarrow> bool \<Rightarrow> string list \<Rightarrow> parameter list" where
  "createParameters inline markdown rawParameters = map (createParameter inline markdown) rawParameters"

section \<open>Tag values and the number conversions of JavaScript\<close>

text \<open>
  The comment parser \<^verbatim>\<open>docblock-parser\<close> is a collaborator outside \<^verbatim>\<open>lib/parse.js\<close>.
  It returns the lead text of a comment and its tags; the value of a tag is a string,
  or an array of strings when the tag is repeated. An absent tag reads as
  \<^verbatim>\<open>undefined\<close>, here \<open>None\<close>.
\<close>

datatype tagval = Single string | Multi "string list"

record commentObject =
  co_text :: string
  co_tags :: "string \<rightharpoonup> tagval"

text \<open>\<^verbatim>\<open>ToString\<close> of a tag value: an array is joined with commas.\<close>

fun join_comma :: "string list \<Rightarrow> string" where
  "join_comma [] = []"
| "join_comma [x] = x"
| "join_comma (x # y # xs) = x @ '','' @ join_comma (y # xs)"

fun to_string :: "tagval \<Rightarrow> string" where
  "to_string (Single s) = s"
| "to_string (Multi xs) = join_comma xs"

text \<open>
  A number of JavaScript, as far as \<^verbatim>\<open>parseInt\<close> produces one: not-a-number, an integer
  that is a double, \<^verbatim>\<open>-0\<close>, or an infinity.
\<close>

datatype jsnum = NaN | Num int | MinusZero | PlusInfinity | MinusInfinity

text \<open>The number of binary digits of a positive integer.\<close>

function bit_length :: "int \<Rightarrow> nat" where
  "bit_length n = (if n \<le> 0 then 0 else Suc (bit_length (n div 2)))"
  by pat_completeness auto
termination
  by (relation "measure nat") auto

declare bit_length.simps [simp del]

text \<open>
  The double nearest to an integer that is not negative: the integer itself below
  \<open>2 ^ 53\<close>; above, it is rounded to 53 binary digits, a tie going to the even one.
  \<open>None\<close> is the infinity that an integer beyond the largest double is rounded to.
\<close>

definition to_double :: "int \<Rightarrow> int option" where
  "to_double n =
     (if n < 2 ^ 53 then Some n
      else
        (let e = bit_length n - 53;
             q = n div 2 ^ e;
             r = n mod 2 ^ e;
             q = (if 2 ^ e < 2 * r \<or> (2 * r = 2 ^ e \<and> odd q) then q + 1 else q)
         in if q * 2 ^ e < 2 ^ 1024 then Some (q * 2 ^ e) else None))"

definition digit_value :: "char \<Rightarrow> nat" where
  "digit_value c =
     (let n = of_char c :: nat
      in if 48 \<le> n \<and> n \<le> 57 then n - 48
         else if 97 \<le> n \<and> n \<le> 122 then n - 87
         else if 65 \<le> n \<and> n \<le> 90 then n - 55
         else 36)"

definition is_digit :: "nat \<Rightarrow> char \<Rightarrow> bool" where
  "is_digit radix c \<longleftrightarrow> digit_value c < radix"

definition strip_sign :: "string \<Rightarrow> string" where
  "strip_sign s =
     (case s of c # r \<Rightarrow> if c = CHR ''+'' \<or> c = CHR ''-'' then r else s | [] \<Rightarrow> s)"

text \<open>
  \<^verbatim>\<open>parseInt(s)\<close> without a radix: leading white space and a sign are skipped, the
  prefix \<^verbatim>\<open>0x\<close> selects radix 16, and the longest run of digits is read; an empty run
  gives \<^verbatim>\<open>NaN\<close>. The result is the double nearest to the number read, with the sign.
\<close>

definition parseInt :: "string \<Rightarrow> jsnum" where
  "parseInt input =
     (let s = dropWhile is_space input;
          negative = (case s of c # _ \<Rightarrow> c = CHR ''-'' | [] \<Rightarrow> False);
          s = strip_sign s;
          hex = (case s of a # b # _ \<Rightarrow> a = CHR ''0'' \<and> (b = CHR ''x'' \<or> b = CHR ''X'')
                 | _ \<Rightarrow> False);
          radix = (if hex then 16 else 10);
          s = (if hex then drop 2 s else s);
          z = takeWhile (is_digit radix) s;
          n = foldl (\<lambda>a c. a * int radix + int (digit_value c)) 0 z
      in if z = [] then NaN
         else
           (case to_double n of
              None \<Rightarrow> if negative then MinusInfinity else PlusInfinity
            | Some d \<Rightarrow>
                if negative then (if d = 0 then MinusZero else Num (- d)) else Num d))"

text \<open>
  \<^verbatim>\<open>isNaN(s)\<close> for a string: the conversion \<^verbatim>\<open>Number(s)\<close> is \<^verbatim>\<open>NaN\<close> unless \<open>s\<close>, without
  the white space around it, is empty or a numeric literal: a signed decimal literal
  with optional fraction and exponent, \<^verbatim>\<open>Infinity\<close>, or an unsigned binary, octal or
  hexadecimal integer.
\<close>

definition exponent_part :: "string \<Rightarrow> bool" where
  "exponent_part s \<longleftrightarrow>
     (case s of
        [] \<Rightarrow> True
      | c # r \<Rightarrow>
          (c = CHR ''e'' \<or> c = CHR ''E'') \<and> strip_sign r \<noteq> [] \<and>
          list_all (is_digit 10) (strip_sign r))"

definition unsigned_decimal :: "string \<Rightarrow> bool" where
  "unsigned_decimal s \<longleftrightarrow>
     s = ''Infinity'' \<or>
     (let ip = takeWhile (is_digit 10) s; r = dropWhile (is_digit 10) s
      in case r of
           c # r' \<Rightarrow>
             if c = CHR ''.'' then
               (ip \<noteq> [] \<or> takeWhile (is_digit 10) r' \<noteq> []) \<and>
               exponent_part (dropWhile (is_digit 10) r')
             else ip \<noteq> [] \<and> exponent_part r
         | [] \<Rightarrow> ip \<noteq> [])"

definition non_decimal :: "string \<Rightarrow> bool" where
  "non_decimal s \<longleftrightarrow>
     (case s of
        a # b # ds \<Rightarrow>
          a = CHR ''0'' \<and> ds \<noteq> [] \<and>
          ((b = CHR ''b'' \<or> b = CHR ''B'') \<and> list_all (is_digit 2) ds \<or>
           (b = CHR ''o'' \<or> b = CHR ''O'') \<and> list_all (is_digit 8) ds \<or>
           (b = CHR ''x'' \<or> b = CHR ''X'') \<and> list_all (is_digit 16) ds)
      | _ \<Rightarrow> False)"

definition isNaN_string :: "string \<Rightarrow> bool" where
  "isNaN_string input \<longleftrightarrow>
     (let s = rstrip (dropWhile is_space input)
      in \<not> (s = [] \<or> non_decimal s \<or> unsigned_decimal (strip_sign s)))"

text \<open>
  Line 147: \<^verbatim>\<open>isNaN(tags.weight) ? 0 : parseInt(tags.weight)\<close>; \<^verbatim>\<open>isNaN(undefined)\<close> is
  true.
\<close>

definition parse_weight :: "tagval option \<Rightarrow> jsnum" where
  "parse_weight w =
     (case w of
        None \<Rightarrow> Num 0
      | Some v \<Rightarrow> if isNaN_string (to_string v) then Num 0 else parseInt (to_string v))"

section \<open>Sections and \<^verbatim>\<open>parse\<close>\<close>

record sourceFile =
  sf_name :: string
  sf_base :: string
  sf_path :: string
  sf_line :: nat

text \<open>
  The values that the properties of a section hold. The custom properties are merged
  into a section under names that the caller chooses.
\<close>

datatype jsval =
    JString string
  | JArray "string list"
  | JNumber jsnum
  | JBool bool
  | JModifiers "modifier list"
  | JParameters "parameter list"
  | JSourceFile sourceFile
  | JInherited string

text \<open>
  A section is a plain object: the map holds its own properties. \<open>JInherited name\<close> is
  the value that \<^verbatim>\<open>Object.prototype\<close> holds under \<open>name\<close>: a function, or for \<^verbatim>\<open>__proto__\<close>
  the prototype itself.
\<close>

type_synonym Section = "string \<rightharpoonup> jsval"

fun of_tag :: "tagval \<Rightarrow> jsval" where
  "of_tag (Single s) = JString s"
| "of_tag (Multi xs) = JArray xs"

text \<open>Truthiness: an empty string is falsy, every array is truthy.\<close>

fun truthy_tag :: "tagval option \<Rightarrow> bool" where
  "truthy_tag None = False"
| "truthy_tag (Some (Single s)) = (s \<noteq> [])"
| "truthy_tag (Some (Multi xs)) = True"

text \<open>\<^verbatim>\<open>tags[name] || ''\<close> and \<^verbatim>\<open>tags.styleguide || false\<close>.\<close>

definition or_empty :: "tagval option \<Rightarrow> tagval" where
  "or_empty t = (case t of Some v \<Rightarrow> if truthy_tag t then v else Single [] | None \<Rightarrow> Single [])"

definition or_false :: "tagval option \<Rightarrow> jsval" where
  "or_false t = (case t of Some v \<Rightarrow> if truthy_tag t then of_tag v else JBool False
                 | None \<Rightarrow> JBool False)"

text \<open>\<^verbatim>\<open>[].concat(x)\<close> for a tag value: an array is spliced in, a string is one element.\<close>

fun concat_tag :: "tagval \<Rightarrow> string list" where
  "concat_tag (Single s) = [s]"
| "concat_tag (Multi xs) = xs"

text \<open>
  An element of the input array: a string, or a file object
  \<^verbatim>\<open>{ base: ..., path: ..., contents: ... }\<close> whose \<^verbatim>\<open>base\<close> may be missing.
\<close>

record fileObject =
  f_base :: "string option"
  f_path :: string
  f_contents :: string

datatype item = Text string | File fileObject

datatype input = OneString string | Items "item list"

fun contents :: "item \<Rightarrow> string" where
  "contents (Text s) = s"
| "contents (File f) = f_contents f"

text \<open>\<^verbatim>\<open>file.path ? file.path : ''\<close> and \<^verbatim>\<open>file.base ? file.base : ''\<close>.\<close>

fun path_or_empty :: "item \<Rightarrow> string" where
  "path_or_empty (Text s) = []"
| "path_or_empty (File f) = f_path f"

fun base_or_empty :: "item \<Rightarrow> string" where
  "base_or_empty (Text s) = []"
| "base_or_empty (File f) = (case f_base f of Some b \<Rightarrow> b | None \<Rightarrow> [])"

text \<open>The options of \<^verbatim>\<open>parse\<close>; a missing option is \<open>None\<close>, and lines 40 to 47 fill it in.\<close>

record options =
  opt_markdown :: "bool option"
  opt_header :: "bool option"
  opt_custom :: "string list option"

definition default_options :: "options option \<Rightarrow> options" where
  "default_options opts =
     (let options = (case opts of Some x \<Rightarrow> x
                     | None \<Rightarrow> \<lparr>opt_markdown = None, opt_header = None, opt_custom = None\<rparr>);
          options = (if opt_markdown options = None then options\<lparr>opt_markdown := Some True\<rparr>
             else options);
          options = (if opt_header options = None then options\<lparr>opt_header := Some True\<rparr>
             else options)
      in options\<lparr>opt_custom := Some (case opt_custom options of Some c \<Rightarrow> c | None \<Rightarrow> [])\<rparr>)"

definition use_markdown :: "options \<Rightarrow> bool" where
  "use_markdown options = (opt_markdown options = Some True)"

definition use_header :: "options \<Rightarrow> bool" where
  "use_header options = (opt_header options = Some True)"

definition custom_names :: "options \<Rightarrow> string list" where
  "custom_names options = (case opt_custom options of Some c \<Rightarrow> c | None \<Rightarrow> [])"

text \<open>
  The collaborators of \<^verbatim>\<open>parse\<close>, which are not code of \<^verbatim>\<open>lib/parse.js\<close>: the comment
  parser, the Markdown renderer in its block mode and with the inline renderer, and
  \<^verbatim>\<open>path.relative\<close>. They are parameters of the model, and total functions: an error of a
  collaborator is not a value here.
\<close>

record collaborators =
  docblockParser_parse :: "string \<Rightarrow> commentObject"
  marked :: "jsval \<Rightarrow> jsval"
  marked_inline :: "string \<Rightarrow> string"
  path_relative :: "string \<Rightarrow> string \<Rightarrow> string"

text \<open>\<^verbatim>\<open>s.replace(/\\/g, '/')\<close>.\<close>

definition unix_separators :: "string \<Rightarrow> string" where
  "unix_separators s = map (\<lambda>c. if c = CHR 0x5C then CHR ''/'' else c) s"

text \<open>
  The object \<^verbatim>\<open>tags\<close> that the comment parser returns is a plain object: \<open>co_tags\<close> holds its
  own properties. A read \<^verbatim>\<open>tags[name]\<close> of a name that is no own property finds the
  property of \<^verbatim>\<open>Object.prototype\<close> of that name, where there is one, and is
  \<^verbatim>\<open>undefined\<close> otherwise. The names that lines 105 to 151 read (\<^verbatim>\<open>styleguide\<close>,
  \<^verbatim>\<open>description\<close>, \<^verbatim>\<open>modifier\<close>, \<^verbatim>\<open>param\<close>, \<^verbatim>\<open>markup\<close>, \<^verbatim>\<open>weight\<close>, \<^verbatim>\<open>deprecated\<close>,
  \<^verbatim>\<open>experimental\<close>) are no names of \<^verbatim>\<open>Object.prototype\<close> (lemma \<open>fixed_names_own\<close>), so
  these reads are reads of \<open>co_tags\<close>; the names of the custom properties are the
  caller's.
\<close>

definition object_prototype_names :: "string list" where
  "object_prototype_names =
     [''constructor'', ''__defineGetter__'', ''__defineSetter__'', ''hasOwnProperty'',
      ''__lookupGetter__'', ''__lookupSetter__'', ''isPrototypeOf'',
      ''propertyIsEnumerable'', ''toString'', ''valueOf'', ''__proto__'',
      ''toLocaleString'']"

datatype property = Undefined | Own tagval | Inherited string

definition get_property :: "(string \<rightharpoonup> tagval) \<Rightarrow> string \<Rightarrow> property" where
  "get_property tags name =
     (case tags name of
        Some v \<Rightarrow> Own v
      | None \<Rightarrow> if name \<in> set object_prototype_names then Inherited name else Undefined)"

text \<open>\<^verbatim>\<open>tags[customProperty] || ''\<close>: a function and an object are truthy.\<close>

definition property_or_empty :: "property \<Rightarrow> jsval" where
  "property_or_empty p =
     (case p of
        Undefined \<Rightarrow> JString []
      | Own v \<Rightarrow> of_tag (or_empty (Some v))
      | Inherited name \<Rightarrow> JInherited name)"

text \<open>
  Lines 155 to 160: the object \<^verbatim>\<open>custom\<close>, an object literal. The assignment
  \<^verbatim>\<open>custom[customProperty] = ...\<close> makes an own property, but for the name \<^verbatim>\<open>__proto__\<close>:
  that assignment calls the setter of \<^verbatim>\<open>Object.prototype\<close>, which makes no own property.
\<close>

fun custom_object :: "(string \<rightharpoonup> tagval) \<Rightarrow> string list \<Rightarrow> Section \<Rightarrow> Section" where
  "custom_object tags [] custom = custom"
| "custom_object tags (customProperty # rest) custom =
     custom_object tags rest
       (if customProperty = ''__proto__'' then custom
        else custom(customProperty \<mapsto> property_or_empty (get_property tags customProperty)))"

text \<open>
  Lines 80 to 151: the section of one comment block before the custom properties are
  merged, or \<open>None\<close> where the source leaves the iteration with \<^verbatim>\<open>continue\<close>.
\<close>

definition builtin_section ::
  "collaborators \<Rightarrow> options \<Rightarrow> item \<Rightarrow> block \<Rightarrow> Section option" where
  "builtin_section k options file comment =
     (let commentObject = docblockParser_parse k (raw comment);
          tags = co_tags commentObject;
          source =
            \<lparr>sf_name = path_or_empty file, sf_base = base_or_empty file,
             sf_path = path_or_empty file, sf_line = line comment\<rparr>;
          source =
            (if base_or_empty file \<noteq> [] then
               source\<lparr>sf_name :=
                 unix_separators (path_relative k (base_or_empty file) (path_or_empty file))\<rparr>
             else source);
          newSection =
            [''raw'' \<mapsto> JString (raw comment), ''header'' \<mapsto> JString [],
             ''description'' \<mapsto> JString [], ''modifiers'' \<mapsto> JModifiers [],
             ''parameters'' \<mapsto> JParameters [], ''markup'' \<mapsto> JString [],
             ''sourceFile'' \<mapsto> JSourceFile source];
          newSection = newSection(''reference'' \<mapsto> or_false (tags ''styleguide''))
      in if \<not> truthy_tag (tags ''styleguide'') then None
         else
           (let newSection =
                  (if use_header options then
                     newSection(''header'' \<mapsto> JString (newlines_to_spaces (co_text commentObject)))
                   else newSection);
                description = of_tag (or_empty (tags ''description''));
                description = (if use_markdown options then marked k description else description);
                newSection = newSection(''description'' \<mapsto> description);
                modifiers = or_empty (tags ''modifier'');
                newSection =
                  (if modifiers \<noteq> Single [] then
                     newSection(''modifiers'' \<mapsto> JModifiers
                       (createModifiers (marked_inline k) (use_markdown options)
                          (concat_tag modifiers)))
                   else newSection);
                parameters = or_empty (tags ''param'');
                newSection =
                  (if parameters \<noteq> Single [] then
                     newSection(''parameters'' \<mapsto> JParameters
                       (createParameters (marked_inline k) (use_markdown options)
                          (concat_tag parameters)))
                   else newSection);
                newSection = newSection(''markup'' \<mapsto> of_tag (or_empty (tags ''markup'')));
                newSection = newSection(''weight'' \<mapsto> JNumber (parse_weight (tags ''weight'')));
                newSection = newSection(''deprecated'' \<mapsto> JBool (tags ''deprecated'' \<noteq> None));
                newSection = newSection(''experimental'' \<mapsto> JBool (tags ''experimental'' \<noteq> None))
            in Some newSection))"

text \<open>
  Lines 153 to 164: the custom properties are merged into the section; the test of
  line 154 succeeds always, \<^verbatim>\<open>options.custom\<close> being an array.
  \<^verbatim>\<open>Object.assign(newSection, custom)\<close> copies the own properties of \<^verbatim>\<open>custom\<close>: it is the
  map \<open>newSection ++ custom\<close>.
\<close>

definition new_section :: "collaborators \<Rightarrow> options \<Rightarrow> item \<Rightarrow> block \<Rightarrow> Section option" where
  "new_section k options file comment =
     (case builtin_section k options file comment of
        None \<Rightarrow> None
      | Some newSection \<Rightarrow>
          (let tags = co_tags (docblockParser_parse k (raw comment));
               custom = custom_object tags (custom_names options) Map.empty
           in Some (newSection ++ custom)))"

text \<open>The loop over the comments of one file, lines 78 to 168, on the list \<^verbatim>\<open>styleGuide.sections\<close>.\<close>

fun parse_comments ::
  "collaborators \<Rightarrow> options \<Rightarrow> item \<Rightarrow> block list \<Rightarrow> Section list \<Rightarrow> Section list" where
  "parse_comments k options file [] sections = sections"
| "parse_comments k options file (comment # comments) sections =
     (case new_section k options file comment of
        None \<Rightarrow> parse_comments k options file comments sections
      | Some newSection \<Rightarrow> parse_comments k options file comments (sections @ [newSection]))"

text \<open>The loop over the files, lines 74 to 169.\<close>

fun parse_files ::
  "collaborators \<Rightarrow> options \<Rightarrow> item list \<Rightarrow> Section list \<Rightarrow> Section list" where
  "parse_files k options [] sections = sections"
| "parse_files k options (file # files) sections =
     parse_files k options files
       (parse_comments k options file (findCommentBlocks (contents file)) sections)"

text \<open>
  The object literal \<^verbatim>\<open>styleGuide\<close> of \<^verbatim>\<open>parse\<close>: the paths of the file objects, and the
  sections.
\<close>

record styleGuide =
  files :: "string list"
  sections :: "Section list"

text \<open>
  Modelled from the spec: the class \<^verbatim>\<open>KssStyleGuide\<close> of \<^verbatim>\<open>lib/kss_style_guide.js\<close>, which
  is not among the sources. The aggregate is constructed from the files and the
  sections and holds both; its sections retain the order in which they were parsed.
\<close>

definition KssStyleGuide :: "styleGuide \<Rightarrow> styleGuide" where
  "KssStyleGuide data = data"

fun file_paths :: "item list \<Rightarrow> string list" where
  "file_paths [] = []"
| "file_paths (Text s # rest) = file_paths rest"
| "file_paths (File f # rest) = f_path f # file_paths rest"

text \<open>\<^verbatim>\<open>parse\<close>, lines 38 to 172.\<close>

definition parse :: "collaborators \<Rightarrow> input \<Rightarrow> options option \<Rightarrow> styleGuide" where
  "parse k input opts =
     (let options = default_options opts;
          items = (case input of OneString s \<Rightarrow> [Text s] | Items xs \<Rightarrow> xs)
      in KssStyleGuide
           \<lparr>files = (case input of OneString s \<Rightarrow> [] | Items xs \<Rightarrow> file_paths xs),
            sections = parse_files k options items []\<rparr>)"

section \<open>Invariants of the scanner\<close>

text \<open>
  While the first \<open>i\<close> lines are read: the saved blocks start at increasing lines up
  to \<open>i\<close>, and an open block starts after all of them.
\<close>

definition line_inv :: "nat \<Rightarrow> scanner \<Rightarrow> bool" where
  "line_inv i s \<longleftrightarrow>
     (\<forall>b \<in> set (blocks s). 0 < line b \<and> line b \<le> i) \<and> line (cur s) \<le> i \<and>
     sorted_wrt (<) (map line (blocks s)) \<and>
     (insideDocblock s \<or> insideMultiBlock s \<longrightarrow>
        0 < line (cur s) \<and> (\<forall>b \<in> set (blocks s). line b < line (cur s))) \<and>
     \<not> insideSingleBlock s"

text \<open>
  \<open>p\<close> is the text read so far, without white space and asterisks: every saved block
  lies in it, the open block ends it.
\<close>

definition raw_inv :: "string \<Rightarrow> scanner \<Rightarrow> bool" where
  "raw_inv p s \<longleftrightarrow>
     (\<forall>b \<in> set (blocks s). sublist (squash (raw b)) p) \<and>
     suffix (squash (raw (cur s))) p \<and>
     (\<not> insideDocblock s \<and> \<not> insideMultiBlock s \<longrightarrow> raw (cur s) = [])"



section \<open>Example inputs\<close>

text \<open>Collaborators for the examples: a comment parser that returns \<open>co\<close> for every
  comment, renderers that change nothing, and a \<^verbatim>\<open>path.relative\<close> that returns the path.\<close>

definition example_collaborators :: "commentObject \<Rightarrow> collaborators" where
  "example_collaborators co =
     \<lparr>docblockParser_parse = (\<lambda>r. co), marked = (\<lambda>v. v), marked_inline = (\<lambda>d. d),
      path_relative = (\<lambda>b p. p)\<rparr>"

text \<open>A comment parser that returns the raw comment as the reference.\<close>

definition echo_collaborators :: collaborators where
  "echo_collaborators =
     \<lparr>docblockParser_parse = (\<lambda>r. \<lparr>co_text = [], co_tags = [''styleguide'' \<mapsto> Single r]\<rparr>),
      marked = (\<lambda>v. v), marked_inline = (\<lambda>d. d), path_relative = (\<lambda>b p. p)\<rparr>"

definition reference_only :: commentObject where
  "reference_only = \<lparr>co_text = [], co_tags = [''styleguide'' \<mapsto> Single ''x.y.z'']\<rparr>"

definition no_tags :: commentObject where
  "no_tags = \<lparr>co_text = ''Buttons'', co_tags = Map.empty\<rparr>"

text \<open>A comment with the tag \<^verbatim>\<open>@weight\<close> and no value for it.\<close>

definition weight_empty :: commentObject where
  "weight_empty =
     \<lparr>co_text = [], co_tags = [''styleguide'' \<mapsto> Single ''a'', ''weight'' \<mapsto> Single []]\<rparr>"

text \<open>The option \<^verbatim>\<open>custom: ['toString', '__proto__', 'weight']\<close>.\<close>

definition custom_prototype_names :: options where
  "custom_prototype_names =
     \<lparr>opt_markdown = Some False, opt_header = Some True,
      opt_custom = Some [''toString'', ''__proto__'', ''weight'']\<rparr>"


section \<open>Properties of the comment block extractor\<close>

subsection \<open>Lines\<close>

lemma split_nl_not_Nil: "split_nl s \<noteq> []"
  by (induction s) (auto split: list.splits)

lemma split_nl_snoc: "split_nl (s @ [NL]) = split_nl s @ [[]]"
  by (induction s) (auto split: list.splits simp: split_nl_not_Nil)

lemma scan_lines_append:
  "scan_lines i (xs @ ys) s = scan_lines (i + length xs) ys (scan_lines i xs s)"
  by (induction xs arbitrary: i s) auto

lemma not_multiFinish_Nil: "\<not> multiFinish []"
  by (simp add: multiFinish_def delimited_def)

lemma rstrip_Nil: "rstrip [] = []"
  by (simp add: rstrip_def)

subsection \<open>The flags\<close>

lemma blocks_scan_body: "blocks (scan_body i l s) = blocks s"
  by (simp add: scan_body_def add_raw_def add_text_def set_line_def Let_def
      split: option.splits)

lemma single_scan_body: "insideSingleBlock (scan_body i l s) = insideSingleBlock s"
  by (simp add: scan_body_def add_raw_def add_text_def set_line_def Let_def
      split: option.splits)

text \<open>
  The pattern \<^verbatim>\<open>multiStart\<close> is the pattern \<^verbatim>\<open>docblockStart\<close>, which is tested first: the
  branch that sets \<^verbatim>\<open>insideMultiBlock\<close> is never taken.
\<close>

lemma multi_scan_body: "insideMultiBlock (scan_body i l s) = insideMultiBlock s"
  by (simp add: scan_body_def multiStart_def docblockStart_def add_raw_def add_text_def
      set_line_def Let_def split: option.splits)

lemma single_scan_line: "\<not> insideSingleBlock s \<Longrightarrow> \<not> insideSingleBlock (scan_line i l s)"
  by (simp add: scan_line_def Let_def single_scan_body save_block_def)

lemma multi_scan_line: "\<not> insideMultiBlock s \<Longrightarrow> \<not> insideMultiBlock (scan_line i l s)"
  by (simp add: scan_line_def Let_def multi_scan_body save_block_def)

lemma flags_scan_lines:
  "\<not> insideSingleBlock s \<Longrightarrow> \<not> insideMultiBlock s \<Longrightarrow>
   \<not> insideSingleBlock (scan_lines i ls s) \<and> \<not> insideMultiBlock (scan_lines i ls s)"
  by (induction ls arbitrary: i s) (auto simp: single_scan_line multi_scan_line)

lemma init_flags:
  "\<not> insideSingleBlock init_scanner" "\<not> insideMultiBlock init_scanner"
  by (simp_all add: init_scanner_def)


subsection \<open>The line added to the input\<close>

lemma blocks_scan_line_blank:
  "\<not> insideSingleBlock s \<Longrightarrow> blocks (scan_line i [] s) = blocks s"
  by (simp add: scan_line_def rstrip_Nil not_multiFinish_Nil blocks_scan_body)

lemma findCommentBlocks_scan_input: "findCommentBlocks input = blocks (scan_input input)"
  using flags_scan_lines [OF init_flags, of 0 "split_nl (normalise input)"]
  by (simp add: findCommentBlocks_def scan_input_def split_nl_snoc scan_lines_append
      blocks_scan_line_blank)

lemma length_blocks_scan_line:
  "\<not> insideSingleBlock s \<Longrightarrow>
   length (blocks (scan_line i l s))
   \<le> length (blocks s) + (if multiFinish (rstrip l) then 1 else 0)"
  by (simp add: scan_line_def Let_def blocks_scan_body save_block_def)

lemma length_blocks_scan_lines:
  "\<not> insideSingleBlock s \<Longrightarrow>
   length (blocks (scan_lines i ls s))
   \<le> length (blocks s) + length (filter (\<lambda>l. multiFinish (rstrip l)) ls)"
proof (induction ls arbitrary: i s)
  case Nil
  then show ?case by simp
next
  case (Cons l ls)
  have "length (blocks (scan_lines (i + 1) ls (scan_line i l s)))
        \<le> length (blocks (scan_line i l s))
          + length (filter (\<lambda>l. multiFinish (rstrip l)) ls)"
    using Cons.prems by (intro Cons.IH) (rule single_scan_line)
  with length_blocks_scan_line [OF Cons.prems, of i l] show ?case
    by (simp split: if_splits)
qed

subsection \<open>The lines where the blocks start\<close>

lemma line_inv_body: "line_inv i s \<Longrightarrow> line_inv (Suc i) (scan_body i l s)"
  by (auto simp: line_inv_def scan_body_def add_raw_def add_text_def set_line_def Let_def
      split: option.splits)

lemma line_inv_save:
  "line_inv i s \<Longrightarrow> insideMultiBlock s \<or> insideDocblock s \<Longrightarrow>
   line_inv (Suc i) (save_block s)"
  by (auto simp: line_inv_def save_block_def empty_block_def sorted_wrt_append)

lemma line_inv_line: "line_inv i s \<Longrightarrow> line_inv (Suc i) (scan_line i l s)"
proof -
  assume inv: "line_inv i s"
  then have "\<not> insideSingleBlock s" by (simp add: line_inv_def)
  then show ?thesis
    using inv by (simp add: scan_line_def Let_def line_inv_body line_inv_save)
qed

lemma line_inv_lines: "line_inv i s \<Longrightarrow> line_inv (i + length ls) (scan_lines i ls s)"
proof (induction ls arbitrary: i s)
  case Nil
  then show ?case by simp
next
  case (Cons l ls)
  from Cons.IH [OF line_inv_line [OF Cons.prems]] show ?case by simp
qed

lemma line_inv_input: "line_inv (length (split_nl (normalise input))) (scan_input input)"
proof -
  have "line_inv 0 init_scanner"
    by (simp add: line_inv_def init_scanner_def empty_block_def)
  from line_inv_lines [OF this] show ?thesis by (simp add: scan_input_def)
qed

lemma lines_increasing: "sorted_wrt (<) (map line (findCommentBlocks input))"
  using line_inv_input [of input] by (simp add: findCommentBlocks_scan_input line_inv_def)

lemma open_block_not_saved:
  "insideDocblock (scan_input input) \<Longrightarrow>
   line (cur (scan_input input)) \<notin> line ` set (findCommentBlocks input)"
  using line_inv_input [of input] by (auto simp: findCommentBlocks_scan_input line_inv_def)

subsection \<open>The raw text of a block\<close>

lemma squash_Nil: "squash [] = []"
  by (simp add: squash_def)

lemma squash_append: "squash (a @ b) = squash a @ squash b"
  by (simp add: squash_def)

lemma squash_NL: "squash [NL] = []"
  by (simp add: squash_def is_space_def NL_def)

lemma squash_spaces: "list_all is_space w \<Longrightarrow> squash w = []"
  by (induction w) (auto simp: squash_def)

lemma rstrip_decomp: "\<exists>w. l = rstrip l @ w \<and> list_all is_space w"
proof -
  have "rev l = takeWhile is_space (rev l) @ dropWhile is_space (rev l)" by simp
  then have "l = rev (dropWhile is_space (rev l)) @ rev (takeWhile is_space (rev l))"
    by (metis rev_append rev_rev_ident)
  moreover have "list_all is_space (rev (takeWhile is_space (rev l)))"
    by (simp add: list_all_iff) (meson set_takeWhileD)
  ultimately show ?thesis unfolding rstrip_def by blast
qed

lemma squash_rstrip: "squash (rstrip l) = squash l"
proof -
  obtain w where w: "l = rstrip l @ w" "list_all is_space w"
    using rstrip_decomp by blast
  then have "squash l = squash (rstrip l) @ squash w" by (metis squash_append)
  then show ?thesis using w(2) by (simp add: squash_spaces)
qed

lemma sublist_extend: "sublist a p \<Longrightarrow> sublist a (p @ q)"
  by (auto simp: sublist_def) (metis append.assoc)

lemma suffix_extend: "suffix a p \<Longrightarrow> suffix (a @ q) (p @ q)"
  by (auto simp: suffix_def)

lemma raw_inv_save: "raw_inv p s \<Longrightarrow> raw_inv (p @ q) (save_block s)"
  by (auto simp: raw_inv_def save_block_def empty_block_def sublist_extend squash_Nil)

lemma raw_inv_body:
  "raw_inv p s \<Longrightarrow> squash l = q \<Longrightarrow> raw_inv (p @ q) (scan_body i l s)"
  by (auto simp: raw_inv_def scan_body_def add_raw_def add_text_def set_line_def Let_def
      squash_Nil squash_append squash_NL sublist_extend suffix_extend split: option.splits)

lemma raw_inv_line: "raw_inv p s \<Longrightarrow> raw_inv (p @ squash l) (scan_line i l s)"
proof -
  assume inv: "raw_inv p s"
  have "raw_inv p (save_block s)"
    using raw_inv_save [OF inv, of "[]"] by simp
  then show ?thesis
    using inv raw_inv_save [OF inv, of "squash l"]
    by (simp add: scan_line_def Let_def raw_inv_body squash_rstrip)
qed

lemma raw_inv_lines:
  "raw_inv p s \<Longrightarrow> raw_inv (p @ concat (map squash ls)) (scan_lines i ls s)"
proof (induction ls arbitrary: i p s)
  case Nil
  then show ?case by simp
next
  case (Cons l ls)
  from Cons.IH [OF raw_inv_line [OF Cons.prems, of l i], of "i + 1"] show ?case by simp
qed

lemma squash_split_nl: "concat (map squash (split_nl t)) = squash t"
  by (induction t) (auto simp: squash_def is_space_def NL_def split: list.splits)

lemma squash_replace_crlf: "squash (replace_crlf t) = squash t"
  by (induction t rule: replace_crlf.induct) (auto simp: squash_def is_space_def NL_def CR_def)

lemma squash_replace_cr: "squash (replace_cr t) = squash t"
  by (induction t) (auto simp: replace_cr_def squash_def is_space_def NL_def CR_def)

lemma squash_normalise: "squash (normalise t) = squash t"
  by (simp add: normalise_def squash_replace_cr squash_replace_crlf)

lemma raw_inv_input: "raw_inv (squash input) (scan_input input)"
proof -
  have "raw_inv [] init_scanner"
    by (simp add: raw_inv_def init_scanner_def empty_block_def squash_Nil)
  from raw_inv_lines [OF this, of "split_nl (normalise input)" 0] show ?thesis
    by (simp add: scan_input_def squash_split_nl squash_normalise)
qed

subsection \<open>Claims about the extractor\<close>

text \<open>
  C1, as the code has it. A block that is still open at the end of the input is not
  saved. The line that \<^verbatim>\<open>input += '\n'\<close> adds closes nothing: the saved blocks are the
  ones saved while the lines of the input itself were read; when the scanner is inside
  a block after the last of these lines, no saved block starts at the line where the
  open block starts; and there are at most as many saved blocks as lines that hold
  only the closing delimiter.
\<close>

theorem open_block_at_end_dropped:
  "findCommentBlocks input = blocks (scan_input input) \<and>
   (insideDocblock (scan_input input) \<longrightarrow>
      line (cur (scan_input input)) \<notin> line ` set (findCommentBlocks input)) \<and>
   length (findCommentBlocks input)
   \<le> length (filter (\<lambda>l. multiFinish (rstrip l)) (split_nl (normalise input)))"
proof -
  have "length (blocks (scan_input input))
        \<le> length (filter (\<lambda>l. multiFinish (rstrip l)) (split_nl (normalise input)))"
    using length_blocks_scan_lines [OF init_flags(1), of 0 "split_nl (normalise input)"]
    by (simp add: scan_input_def init_scanner_def)
  then show ?thesis
    using open_block_not_saved [of input] by (simp add: findCommentBlocks_scan_input)
qed

text \<open>
  The input \<^verbatim>\<open>"/**\n * @styleguide x"\<close> ends inside a docblock that starts at line 1, and
  no block that starts at line 1 is saved.
\<close>

theorem open_block_at_end_dropped_witness:
  "insideDocblock (scan_input ''/**\<newline> * @styleguide x'') \<and>
   line (cur (scan_input ''/**\<newline> * @styleguide x'')) = 1 \<and>
   1 \<notin> line ` set (findCommentBlocks ''/**\<newline> * @styleguide x'')"
proof -
  have inside: "insideDocblock (scan_input ''/**\<newline> * @styleguide x'')"
    by code_simp
  have start: "line (cur (scan_input ''/**\<newline> * @styleguide x'')) = 1"
    by code_simp
  from open_block_at_end_dropped [of "''/**\<newline> * @styleguide x''"] inside
  have "line (cur (scan_input ''/**\<newline> * @styleguide x''))
        \<notin> line ` set (findCommentBlocks ''/**\<newline> * @styleguide x'')"
    by blast
  with inside start show ?thesis by simp
qed

text \<open>
  C1 as it is stated fails: the input \<^verbatim>\<open>"/**\n * @styleguide x"\<close> ends inside an open
  docblock, and the extractor returns no block.
\<close>

theorem open_block_at_end_counterexample:
  "insideDocblock (scan_input ''/**\<newline> * @styleguide x'') \<and>
   findCommentBlocks ''/**\<newline> * @styleguide x'' = []"
  by code_simp

text \<open>
  C9. The extractor is a total function: the loop is a recursion over the list of
  lines, and no step of it has an error. The raw text of every block that it returns,
  without white space and asterisks, is a contiguous part of the input without white
  space and asterisks.
\<close>

theorem raw_contained_in_input:
  "\<forall>b \<in> set (findCommentBlocks input). sublist (squash (raw b)) (squash input)"
  using raw_inv_input [of input] by (simp add: findCommentBlocks_scan_input raw_inv_def)

theorem raw_contained_in_input_witness:
  "findCommentBlocks ''a {}\<newline>/**\<newline> * B\<newline> */\<newline>c'' =
     [\<lparr>line = 2, text' = ''B'', raw = ''/**\<newline> * B\<newline>''\<rparr>] \<and>
   sublist (squash ''/**\<newline> * B\<newline>'') (squash ''a {}\<newline>/**\<newline> * B\<newline> */\<newline>c'')"
proof -
  have blocks: "findCommentBlocks ''a {}\<newline>/**\<newline> * B\<newline> */\<newline>c'' =
      [\<lparr>line = 2, text' = ''B'', raw = ''/**\<newline> * B\<newline>''\<rparr>]"
    by code_simp
  from raw_contained_in_input [of "''a {}\<newline>/**\<newline> * B\<newline> */\<newline>c''"]
  show ?thesis unfolding blocks by simp
qed

subsection \<open>The branch for multi-line blocks\<close>









section \<open>Properties of the modifier and parameter lines\<close>





subsection \<open>Where the separator matches\<close>




subsection \<open>The text before the separator\<close>






subsection \<open>The split at the equals sign\<close>




lemma split_sep_not_Nil: "split_sep c s \<noteq> []"
  by (induction c s rule: split_sep.induct) (auto split: option.splits list.splits)



text \<open>Where the test of line 320 succeeds, \<^verbatim>\<open>tokens[0]\<close> and \<^verbatim>\<open>tokens[1]\<close> exist.\<close>

lemma split_sep_two: "has_sep c s \<Longrightarrow> 2 \<le> length (split_sep c s)"
proof (induction c s rule: split_sep.induct)
  case (1 c)
  then show ?case by simp
next
  case (2 c x xs)
  show ?case
  proof (cases "match_sep c (x # xs)")
    case None
    then have "has_sep c xs" using "2.prems" by simp
    with None have "2 \<le> length (split_sep c xs)" by (intro "2.IH"(1))
    then show ?thesis using None by (auto split: list.splits)
  next
    case (Some r)
    then show ?thesis using split_sep_not_Nil [of c r] by (cases "split_sep c r") auto
  qed
qed

subsection \<open>Entries of the shape of the mini-grammar\<close>






text \<open>
  C7, evaluated. \<^verbatim>\<open>createParameters\<close> does not fold a description of two lines, where
  \<^verbatim>\<open>createModifiers\<close> does; and the fold of \<^verbatim>\<open>createModifiers\<close> replaces a run that holds
  the character \<^verbatim>\<open>|\<close> as well, which is no white space. A description of one line is
  left as it is.
\<close>

theorem description_folding_evaluated:
  "createParameters (\<lambda>d. d) False [''@a - one\<newline>two''] =
     [\<lparr>p_name = ''@a'', p_defaultValue = [], p_description = ''one\<newline>two''\<rparr>] \<and>
   createModifiers (\<lambda>d. d) False [''.a - one\<newline>two''] =
     [\<lparr>m_name = ''.a'', m_description = ''one two''\<rparr>] \<and>
   createModifiers (\<lambda>d. d) False [''.a - x || y\<newline>z''] =
     [\<lparr>m_name = ''.a'', m_description = ''x y z''\<rparr>] \<and>
   createModifiers (\<lambda>d. d) False ['':hover - Highlight''] =
     [\<lparr>m_name = '':hover'', m_description = ''Highlight''\<rparr>]"
  by code_simp

section \<open>Properties of the sections\<close>

subsection \<open>The loops\<close>

lemma parse_comments_acc:
  "parse_comments k opts file bs acc = acc @ List.map_filter (new_section k opts file) bs"
  by (induction bs arbitrary: acc) (auto simp: map_filter_simps split: option.splits)

lemma parse_files_acc:
  "parse_files k opts fs acc =
   acc @ concat (map (\<lambda>file. List.map_filter (new_section k opts file)
                        (findCommentBlocks (contents file))) fs)"
  by (induction fs arbitrary: acc) (auto simp: parse_comments_acc)

lemma parse_one_string:
  "sections (parse k (OneString s) opts) =
   parse_comments k (default_options opts) (Text s) (findCommentBlocks s) []"
  by (simp add: parse_def KssStyleGuide_def)

subsection \<open>The merge of the custom properties\<close>

lemma or_empty_Some: "or_empty (Some v) = v"
  by (cases v) (auto simp: or_empty_def)

lemma or_empty_None: "or_empty None = Single []"
  by (simp add: or_empty_def)

text \<open>The names that lines 105 to 151 read are read from the own properties.\<close>

lemma fixed_names_not_inherited:
  "list_all (\<lambda>name. name \<notin> set object_prototype_names)
     [''styleguide'', ''description'', ''modifier'', ''param'', ''markup'', ''weight'',
      ''deprecated'', ''experimental'']"
  by (simp add: object_prototype_names_def)

lemma fixed_names_own:
  assumes "name \<in> set [''styleguide'', ''description'', ''modifier'', ''param'', ''markup'',
                        ''weight'', ''deprecated'', ''experimental'']"
  shows "get_property tags name = (case tags name of Some v \<Rightarrow> Own v | None \<Rightarrow> Undefined)"
proof -
  have "name \<notin> set object_prototype_names"
    using fixed_names_not_inherited assms unfolding list_all_iff by blast
  then show ?thesis
    by (simp add: get_property_def split: option.splits)
qed

lemma custom_object_apply:
  "custom_object tags names acc x =
   (if x \<in> set names \<and> x \<noteq> ''__proto__''
    then Some (property_or_empty (get_property tags x)) else acc x)"
  by (induction names arbitrary: acc) auto

lemma new_section_apply:
  "builtin_section k opts file comment = Some builtin \<Longrightarrow>
   \<exists>sec. new_section k opts file comment = Some sec \<and>
     (\<forall>x. sec x =
        (if x \<in> set (custom_names opts) \<and> x \<noteq> ''__proto__''
         then Some (property_or_empty
                      (get_property (co_tags (docblockParser_parse k (raw comment))) x))
         else builtin x))"
  by (auto simp: new_section_def Let_def map_add_def custom_object_apply
      split: option.splits)

lemma new_section_builtin:
  "new_section k opts file comment = Some sec \<Longrightarrow>
   \<exists>builtin. builtin_section k opts file comment = Some builtin"
  by (auto simp: new_section_def split: option.splits)

subsection \<open>The reference\<close>

lemma builtin_section_None:
  "\<not> truthy_tag (co_tags (docblockParser_parse k (raw comment)) ''styleguide'') \<Longrightarrow>
   builtin_section k opts file comment = None"
  by (simp add: builtin_section_def Let_def)

lemma new_section_None:
  "\<not> truthy_tag (co_tags (docblockParser_parse k (raw comment)) ''styleguide'') \<Longrightarrow>
   new_section k opts file comment = None"
  by (simp add: new_section_def builtin_section_None)

lemma new_section_Some:
  "truthy_tag (co_tags (docblockParser_parse k (raw comment)) ''styleguide'') \<Longrightarrow>
   \<exists>sec. new_section k opts file comment = Some sec"
  by (simp add: new_section_def builtin_section_def Let_def)

subsection \<open>The properties of a section before the merge\<close>

lemma builtin_weight:
  "builtin_section k opts file comment = Some sec \<Longrightarrow>
   sec ''weight'' =
     Some (JNumber (parse_weight (co_tags (docblockParser_parse k (raw comment)) ''weight'')))"
  by (auto simp: builtin_section_def Let_def split: if_splits)

lemma builtin_only_reference:
  assumes "co_tags (docblockParser_parse k (raw comment)) = [''styleguide'' \<mapsto> Single ''x.y.z'']"
    and "co_text (docblockParser_parse k (raw comment)) = []"
    and "use_markdown opts \<longrightarrow> marked k (JString []) = JString []"
  shows "\<exists>sec. builtin_section k opts file comment = Some sec \<and>
    sec ''reference'' = Some (JString ''x.y.z'') \<and>
    sec ''header'' = Some (JString []) \<and>
    sec ''description'' = Some (JString []) \<and>
    sec ''modifiers'' = Some (JModifiers []) \<and>
    sec ''parameters'' = Some (JParameters []) \<and>
    sec ''markup'' = Some (JString []) \<and>
    sec ''weight'' = Some (JNumber (Num 0)) \<and>
    sec ''deprecated'' = Some (JBool False) \<and>
    sec ''experimental'' = Some (JBool False)"
  using assms
  by (simp add: builtin_section_def Let_def or_empty_def or_false_def parse_weight_def
      newlines_to_spaces_def)

subsection \<open>Claims about the sections\<close>

text \<open>
  C3. A comment block whose tags are the reference tag \<^verbatim>\<open>@styleguide\<close> with the value
  \<^verbatim>\<open>x.y.z\<close> and nothing else, and whose lead text is empty, gives exactly one section:
  its reference is \<^verbatim>\<open>x.y.z\<close>, its description is empty, it has no modifiers and no
  parameters, its weight is 0, and it is neither deprecated nor experimental. The
  Markdown renderer, when it is enabled, is taken to render the empty string as the
  empty string, and none of these properties is declared as a custom property (the
  default configuration declares none).
\<close>

theorem reference_only_section:
  assumes "co_tags (docblockParser_parse k (raw comment)) = [''styleguide'' \<mapsto> Single ''x.y.z'']"
    and "co_text (docblockParser_parse k (raw comment)) = []"
    and "use_markdown opts \<longrightarrow> marked k (JString []) = JString []"
    and "set (custom_names opts) \<inter>
           {''reference'', ''description'', ''modifiers'', ''parameters'', ''weight'',
            ''deprecated'', ''experimental''} = {}"
  shows "\<exists>sec. parse_comments k opts file [comment] acc = acc @ [sec] \<and>
    sec ''reference'' = Some (JString ''x.y.z'') \<and>
    sec ''description'' = Some (JString []) \<and>
    sec ''modifiers'' = Some (JModifiers []) \<and>
    sec ''parameters'' = Some (JParameters []) \<and>
    sec ''weight'' = Some (JNumber (Num 0)) \<and>
    sec ''deprecated'' = Some (JBool False) \<and>
    sec ''experimental'' = Some (JBool False)"
proof -
  obtain builtin where b: "builtin_section k opts file comment = Some builtin"
    and fields: "builtin ''reference'' = Some (JString ''x.y.z'')"
      "builtin ''description'' = Some (JString [])"
      "builtin ''modifiers'' = Some (JModifiers [])"
      "builtin ''parameters'' = Some (JParameters [])"
      "builtin ''weight'' = Some (JNumber (Num 0))"
      "builtin ''deprecated'' = Some (JBool False)"
      "builtin ''experimental'' = Some (JBool False)"
    using builtin_only_reference [OF assms(1-3)] by blast
  obtain sec where s: "new_section k opts file comment = Some sec"
    and merge: "\<And>x. x \<notin> set (custom_names opts) \<Longrightarrow> sec x = builtin x"
    using new_section_apply [OF b] by auto
  have "parse_comments k opts file [comment] acc = acc @ [sec]"
    by (simp add: s)
  moreover have "sec ''reference'' = builtin ''reference''"
    "sec ''description'' = builtin ''description''"
    "sec ''modifiers'' = builtin ''modifiers''"
    "sec ''parameters'' = builtin ''parameters''"
    "sec ''weight'' = builtin ''weight''"
    "sec ''deprecated'' = builtin ''deprecated''"
    "sec ''experimental'' = builtin ''experimental''"
    using assms(4) by (auto intro!: merge)
  ultimately show ?thesis using fields by simp
qed

text \<open>The text \<^verbatim>\<open>"/**\n * @styleguide x.y.z\n */"\<close> under the default options.\<close>

theorem reference_only_section_witness:
  "\<exists>sec. sections (parse (example_collaborators reference_only)
                    (OneString ''/**\<newline> * @styleguide x.y.z\<newline> */'') None) = [sec] \<and>
     sec ''reference'' = Some (JString ''x.y.z'') \<and>
     sec ''description'' = Some (JString []) \<and>
     sec ''modifiers'' = Some (JModifiers []) \<and>
     sec ''parameters'' = Some (JParameters []) \<and>
     sec ''weight'' = Some (JNumber (Num 0)) \<and>
     sec ''deprecated'' = Some (JBool False) \<and>
     sec ''experimental'' = Some (JBool False)"
proof -
  have blocks: "findCommentBlocks ''/**\<newline> * @styleguide x.y.z\<newline> */'' =
      [\<lparr>line = 1, text' = ''@styleguide x.y.z'', raw = ''/**\<newline> * @styleguide x.y.z\<newline>''\<rparr>]"
    by code_simp
  have opts: "custom_names (default_options None) = []"
    by (simp add: custom_names_def default_options_def)
  show ?thesis
    unfolding parse_one_string blocks
    using reference_only_section
      [of "example_collaborators reference_only" _ "default_options None" _ "[]"]
    by (simp add: example_collaborators_def reference_only_def opts)
qed

text \<open>
  C4. A comment block whose tags lack the reference tag gives no section: the
  iteration of the loop leaves the list of sections as it was. The model has no error
  on this path, as the source has none.
\<close>

theorem no_reference_no_section:
  assumes "co_tags (docblockParser_parse k (raw comment)) ''styleguide'' = None"
  shows "new_section k opts file comment = None \<and>
    parse_comments k opts file (comment # comments) acc =
      parse_comments k opts file comments acc"
  using assms by (simp add: new_section_None)

text \<open>The text \<^verbatim>\<open>"/**\n * Buttons\n */"\<close>, a comment without tags.\<close>

theorem no_reference_no_section_witness:
  "sections (parse (example_collaborators no_tags)
               (OneString ''/**\<newline> * Buttons\<newline> */'') None) = []"
proof -
  have blocks: "findCommentBlocks ''/**\<newline> * Buttons\<newline> */'' =
      [\<lparr>line = 1, text' = ''Buttons'', raw = ''/**\<newline> * Buttons\<newline>''\<rparr>]"
    by code_simp
  show ?thesis
    unfolding parse_one_string blocks
    using no_reference_no_section
      [of "example_collaborators no_tags" _ "default_options None"
        "Text ''/**\<newline> * Buttons\<newline> */''" "[]" "[]"]
    by (simp add: example_collaborators_def no_tags_def)
qed

text \<open>
  C5, evaluated. A weight tag without a value, which the comment parser gives as the
  empty string, makes the weight of the section \<^verbatim>\<open>NaN\<close>: \<^verbatim>\<open>isNaN\<close> takes the empty string
  as the number 0, and \<^verbatim>\<open>parseInt\<close> reads no digit in it. The values \<^verbatim>\<open>" "\<close>, \<^verbatim>\<open>".5"\<close> and
  \<^verbatim>\<open>"Infinity"\<close> give \<^verbatim>\<open>NaN\<close> in the same way, neither an integer nor 0. Where the claim
  holds: an absent tag and the value \<^verbatim>\<open>"invalid"\<close> give 0, \<^verbatim>\<open>"8"\<close> gives 8, \<^verbatim>\<open>"-7"\<close> and
  \<^verbatim>\<open>"+7"\<close> give -7 and 7, and \<^verbatim>\<open>"9007199254740993"\<close> gives the nearest double.
\<close>

theorem weight_not_a_number:
  "(\<exists>sec. new_section (example_collaborators weight_empty) (default_options None)
            (Text []) empty_block = Some sec \<and>
      sec ''weight'' = Some (JNumber NaN)) \<and>
   parse_weight (Some (Single [])) = NaN \<and>
   parse_weight (Some (Single '' '')) = NaN \<and>
   parse_weight (Some (Single ''.5'')) = NaN \<and>
   parse_weight (Some (Single ''Infinity'')) = NaN \<and>
   parse_weight None = Num 0 \<and>
   parse_weight (Some (Single ''invalid'')) = Num 0 \<and>
   parse_weight (Some (Single ''8'')) = Num 8 \<and>
   parse_weight (Some (Single ''-7'')) = Num (- 7) \<and>
   parse_weight (Some (Single ''+7'')) = Num 7 \<and>
   parse_weight (Some (Single ''9007199254740993'')) = Num 9007199254740992"
proof -
  have tag: "co_tags (docblockParser_parse (example_collaborators weight_empty)
      (raw empty_block)) ''weight'' = Some (Single [])"
    by (simp add: example_collaborators_def weight_empty_def)
  have names: "custom_names (default_options None) = []"
    by (simp add: custom_names_def default_options_def)
  have empty: "parse_weight (Some (Single [])) = NaN"
    by code_simp
  obtain sec where s: "new_section (example_collaborators weight_empty)
      (default_options None) (Text []) empty_block = Some sec"
    using new_section_Some
      [of "example_collaborators weight_empty" empty_block "default_options None" "Text []"]
    by (auto simp: example_collaborators_def weight_empty_def)
  obtain builtin where b: "builtin_section (example_collaborators weight_empty)
      (default_options None) (Text []) empty_block = Some builtin"
    using new_section_builtin [OF s] by blast
  from new_section_apply [OF b] s have "sec ''weight'' = builtin ''weight''"
    by (auto simp: names)
  then have "sec ''weight'' = Some (JNumber NaN)"
    by (simp add: builtin_weight [OF b] tag empty)
  with s have section_weight:
    "\<exists>sec. new_section (example_collaborators weight_empty) (default_options None)
            (Text []) empty_block = Some sec \<and>
      sec ''weight'' = Some (JNumber NaN)"
    by blast
  have "parse_weight (Some (Single '' '')) = NaN"
    by code_simp
  moreover have "parse_weight (Some (Single ''.5'')) = NaN"
    by code_simp
  moreover have "parse_weight (Some (Single ''Infinity'')) = NaN"
    by code_simp
  moreover have "parse_weight None = Num 0"
    by code_simp
  moreover have "parse_weight (Some (Single ''invalid'')) = Num 0"
    by code_simp
  moreover have "parse_weight (Some (Single ''8'')) = Num 8"
    by code_simp
  moreover have "parse_weight (Some (Single ''-7'')) = Num (- 7)"
    by code_simp
  moreover have "parse_weight (Some (Single ''+7'')) = Num 7"
    by code_simp
  moreover have "parse_weight (Some (Single ''9007199254740993'')) = Num 9007199254740992"
    by code_simp
  ultimately show ?thesis
    using section_weight empty by blast
qed

text \<open>
  C8. The sections that \<^verbatim>\<open>parse\<close> collects are the sections of the first file, then the
  ones of the second file, and so on: the sections of a list of files followed by
  another are the sections of the one followed by the sections of the other. The
  sections of a file are the sections of its comment blocks that have a reference, in
  the order of the blocks, and the blocks start at increasing lines. Nothing sorts the
  list.
\<close>

theorem sections_in_input_order:
  "sections (parse k (Items fs) opts) =
     concat (map (\<lambda>file. List.map_filter (new_section k (default_options opts) file)
                           (findCommentBlocks (contents file))) fs) \<and>
   sections (parse k (Items (fs @ gs)) opts) =
     sections (parse k (Items fs) opts) @ sections (parse k (Items gs) opts) \<and>
   sections (parse k (OneString s) opts) = sections (parse k (Items [Text s]) opts) \<and>
   sorted_wrt (<) (map line (findCommentBlocks (contents file)))"
  by (simp add: parse_def KssStyleGuide_def Let_def parse_files_acc lines_increasing)

text \<open>Two files, the first with two comment blocks; the reference of a section is the
  raw text of its comment here.\<close>

theorem sections_in_input_order_witness:
  "map (\<lambda>sec. sec ''reference'')
     (sections (parse echo_collaborators
        (Items [Text ''/**\<newline>a\<newline>*/\<newline>/**\<newline>b\<newline>*/'', Text ''/**\<newline>c\<newline>*/'']) None)) =
   [Some (JString ''/**\<newline>a\<newline>''), Some (JString ''/**\<newline>b\<newline>''), Some (JString ''/**\<newline>c\<newline>'')]"
proof -
  have b1: "findCommentBlocks ''/**\<newline>a\<newline>*/\<newline>/**\<newline>b\<newline>*/'' =
      [\<lparr>line = 1, text' = ''a'', raw = ''/**\<newline>a\<newline>''\<rparr>,
       \<lparr>line = 4, text' = ''b'', raw = ''/**\<newline>b\<newline>''\<rparr>]"
    by code_simp
  have b2: "findCommentBlocks ''/**\<newline>c\<newline>*/'' =
      [\<lparr>line = 1, text' = ''c'', raw = ''/**\<newline>c\<newline>''\<rparr>]"
    by code_simp
  have "sections (parse echo_collaborators
        (Items [Text ''/**\<newline>a\<newline>*/\<newline>/**\<newline>b\<newline>*/'', Text ''/**\<newline>c\<newline>*/'']) None) =
     concat (map (\<lambda>file. List.map_filter
                    (new_section echo_collaborators (default_options None) file)
                    (findCommentBlocks (contents file)))
              [Text ''/**\<newline>a\<newline>*/\<newline>/**\<newline>b\<newline>*/'', Text ''/**\<newline>c\<newline>*/''])"
    using sections_in_input_order
      [of echo_collaborators
        "[Text ''/**\<newline>a\<newline>*/\<newline>/**\<newline>b\<newline>*/'', Text ''/**\<newline>c\<newline>*/'']" None]
    by blast
  then show ?thesis
    by (simp add: b1 b2 map_filter_simps new_section_def builtin_section_def Let_def
        echo_collaborators_def or_false_def default_options_def custom_names_def)
qed

text \<open>
  C10, evaluated. With the custom properties \<^verbatim>\<open>toString\<close>, \<^verbatim>\<open>__proto__\<close> and \<^verbatim>\<open>weight\<close>
  declared and none of these tags in the comment: the property \<^verbatim>\<open>toString\<close> of the section
  is not the empty string but the function that the read \<^verbatim>\<open>tags['toString']\<close> finds in
  \<^verbatim>\<open>Object.prototype\<close>; the section gains no property \<^verbatim>\<open>__proto__\<close>, the assignment to
  \<^verbatim>\<open>custom['__proto__']\<close> making none. The property \<^verbatim>\<open>weight\<close> is overwritten with the empty
  string, and \<^verbatim>\<open>deprecated\<close>, which is not declared, keeps its value, as the claim says.
\<close>

theorem custom_names_of_object_prototype:
  "\<exists>sec. new_section (example_collaborators reference_only) custom_prototype_names
            (Text []) empty_block = Some sec \<and>
     sec ''toString'' = Some (JInherited ''toString'') \<and>
     sec ''__proto__'' = None \<and>
     sec ''weight'' = Some (JString []) \<and>
     sec ''deprecated'' = Some (JBool False)"
proof -
  obtain builtin where b: "builtin_section (example_collaborators reference_only)
      custom_prototype_names (Text []) empty_block = Some builtin"
    and d: "builtin ''deprecated'' = Some (JBool False)"
    using builtin_only_reference
      [of "example_collaborators reference_only" empty_block custom_prototype_names "Text []"]
    by (auto simp: example_collaborators_def reference_only_def custom_prototype_names_def
        use_markdown_def)
  have p: "builtin ''__proto__'' = None"
    using b
    by (auto simp: builtin_section_def Let_def example_collaborators_def reference_only_def
        split: if_splits)
  have names: "custom_names custom_prototype_names = [''toString'', ''__proto__'', ''weight'']"
    by (simp add: custom_names_def custom_prototype_names_def)
  have tags: "co_tags (docblockParser_parse (example_collaborators reference_only)
      (raw empty_block)) = [''styleguide'' \<mapsto> Single ''x.y.z'']"
    by (simp add: example_collaborators_def reference_only_def)
  from new_section_apply [OF b] obtain sec where
    s: "new_section (example_collaborators reference_only) custom_prototype_names (Text [])
          empty_block = Some sec"
    and m: "\<And>x. sec x =
        (if x \<in> set (custom_names custom_prototype_names) \<and> x \<noteq> ''__proto__''
         then Some (property_or_empty
                      (get_property (co_tags (docblockParser_parse
                         (example_collaborators reference_only) (raw empty_block))) x))
         else builtin x)"
    by blast
  have "sec ''toString'' = Some (JInherited ''toString'')"
    unfolding m names tags
    by (simp add: get_property_def property_or_empty_def object_prototype_names_def)
  moreover have "sec ''__proto__'' = None"
    unfolding m names by (simp add: p)
  moreover have "sec ''weight'' = Some (JString [])"
    unfolding m names tags
    by (simp add: get_property_def property_or_empty_def object_prototype_names_def)
  moreover have "sec ''deprecated'' = Some (JBool False)"
    unfolding m names by (simp add: d)
  ultimately show ?thesis using s by blast
qed

end
